theory Spec2Isabelle
  imports Complex_Main "HOL-Library.Multiset" "HOL-Library.Option_ord"
begin

section \<open>Data model\<close>

text \<open>
  The offers application of the marketplace backend: \<open>offers/models.py\<close>,
  \<open>offers/api/serializers.py\<close>, \<open>offers/api/views.py\<close>, \<open>offers/api/ordering.py\<close>,
  \<open>offers/api/permissions.py\<close> and the profile of \<open>user_auth/models.py\<close>.

  Primary keys are natural numbers. A price is a \<open>FloatField\<close>; it is modelled by the
  rational number the decimal literal denotes. Time stamps are natural numbers (a clock
  value handed to each operation that writes one).
\<close>

type_synonym pk = nat

text \<open>\<open>Profile.type\<close> is a character field; the views compare it with \<open>'business'\<close>.\<close>

record Profile =
  profile_type :: string

text \<open>
  A user of \<open>django.contrib.auth\<close>: the primary key, the \<open>is_staff\<close> flag and the
  one-to-one \<open>profile\<close>, which a user may lack.
\<close>

record User =
  user_pk :: pk
  is_staff :: bool
  profile :: "Profile option"

datatype caller = AnonymousUser | Authenticated User

text \<open>\<open>OfferDetail.OFFER_TYPES\<close>.\<close>

datatype offer_type = Basic | Standard | Premium

record Offer =
  offer_id :: pk
  offer_user :: pk
  offer_title :: string
  offer_description :: string
  offer_image :: "string option"
  updated_at :: nat
  created_at :: nat

record OfferDetail =
  od_id :: pk
  od_title :: string
  od_price :: rat
  od_delivery_time_in_days :: int
  od_offer :: pk
  od_features :: "string list"
  od_offer_type :: offer_type
  od_revisions :: int

text \<open>The two tables, rows in insertion order.\<close>

record db =
  offers :: "Offer list"
  details :: "OfferDetail list"

section \<open>Errors\<close>

text \<open>
  The messages of the four field validators of \<open>OfferDetailSerializer\<close> (German texts in
  the source) and the framework's message for a required field that is missing.
\<close>

datatype message =
    DeliveryTimeAtLeastOneDay
  | PriceAboveOne
  | RevisionsNotBelowMinusOne
  | AtLeastOneFeature
  | FieldRequired

text \<open>\<open>serializer.errors\<close>: field name and messages, in the order of \<open>Meta.fields\<close>.\<close>

type_synonym field_errors = "(string \<times> message list) list"

datatype error =
    NotAuthenticated
  | PermissionDenied
  | BusinessProfileRequired
  | NotFound
  | ValidationError "field_errors list"
  | TypeError
  | RelatedObjectDoesNotExist
  | FieldError

section \<open>Detail validation (\<open>OfferDetailSerializer\<close>)\<close>

text \<open>
  One entry of a request's \<open>details\<close> list. The title, the tier, the price, the delivery
  time and the revisions are taken as supplied and well-formed for their declared field
  (the framework's coercion of the raw JSON is not part of this development); the
  feature list may be missing. \<open>dd_id\<close> is the \<open>id\<close> key, which only update requests
  carry.
\<close>

record detail_data =
  dd_id :: "pk option"
  dd_title :: string
  dd_revisions :: int
  dd_delivery_time_in_days :: int
  dd_price :: rat
  dd_features :: "string list option"
  dd_offer_type :: offer_type

definition validate_delivery_time_in_days :: "int \<Rightarrow> message + int" where
  "validate_delivery_time_in_days v =
     (if v < 1 then Inl DeliveryTimeAtLeastOneDay else Inr v)"

definition validate_price :: "rat \<Rightarrow> message + rat" where
  "validate_price v = (if v \<le> 1 then Inl PriceAboveOne else Inr v)"

definition validate_revisions :: "int \<Rightarrow> message + int" where
  "validate_revisions v =
     (if v < - 1 then Inl RevisionsNotBelowMinusOne else Inr v)"

text \<open>\<open>if not value\<close>: the empty list is falsy.\<close>

definition validate_features :: "string list \<Rightarrow> message + string list" where
  "validate_features v = (if v = [] then Inl AtLeastOneFeature else Inr v)"

text \<open>
  The framework runs every writable field in the order of \<open>Meta.fields\<close>, calls the
  field's \<open>validate_<name>\<close> hook on the supplied value and collects each failure under
  the field's name; a failure of one field does not stop the others. \<open>features\<close> is a
  \<open>JSONField\<close> without default, hence required: when it is missing the hook is not
  called and the field reports \<open>FieldRequired\<close>.
\<close>

definition field_error :: "string \<Rightarrow> message + 'a \<Rightarrow> field_errors" where
  "field_error name r = (case r of Inl m \<Rightarrow> [(name, [m])] | Inr _ \<Rightarrow> [])"

definition run_features :: "string list option \<Rightarrow> message + string list" where
  "run_features f =
     (case f of None \<Rightarrow> Inl FieldRequired | Some v \<Rightarrow> validate_features v)"

definition detail_errors :: "detail_data \<Rightarrow> field_errors" where
  "detail_errors d =
     field_error ''revisions'' (validate_revisions (dd_revisions d)) @
     field_error ''delivery_time_in_days''
       (validate_delivery_time_in_days (dd_delivery_time_in_days d)) @
     field_error ''price'' (validate_price (dd_price d)) @
     field_error ''features'' (run_features (dd_features d))"

definition is_valid :: "detail_data \<Rightarrow> bool" where
  "is_valid d = (detail_errors d = [])"

text \<open>
  \<open>validated_data\<close>: the writable fields; \<open>id\<close> is read-only and is left out.
\<close>

definition validated_data :: "detail_data \<Rightarrow> detail_data" where
  "validated_data d = d\<lparr>dd_id := None\<rparr>"


section \<open>Persistence (\<open>offers/models.py\<close> and the object-relational mapper)\<close>

text \<open>
  An automatic primary key: one above the largest key of the table.
\<close>

definition next_pk :: "pk list \<Rightarrow> pk" where
  "next_pk ids = Suc (fold max ids 0)"

text \<open>
  \<open>round(self.price, 2)\<close> on the rational the price denotes: the nearest multiple of
  1/100, a tie going to the even one (the rule of Python 3).
\<close>

definition py_round2 :: "rat \<Rightarrow> rat" where
  "py_round2 x =
     (let y = x * 100; f = \<lfloor>y\<rfloor>; r = y - of_int f
      in of_int (if r < 1 / 2 \<or> (r = 1 / 2 \<and> even f) then f else f + 1) / 100)"

text \<open>
  \<open>OfferDetail.round_price\<close>. The price column is not nullable, so the test
  \<open>self.price is not None\<close> always succeeds.
\<close>

definition round_price :: "OfferDetail \<Rightarrow> OfferDetail" where
  "round_price d = d\<lparr>od_price := py_round2 (od_price d)\<rparr>"

text \<open>
  \<open>OfferDetail.save\<close>: rounds the price, then \<open>super().save\<close> writes the row under the
  instance's key (replacing the row of that key, or adding the row when the key is new).
\<close>

definition write_row :: "OfferDetail \<Rightarrow> db \<Rightarrow> db" where
  "write_row d s =
     (if od_id d \<in> set (map od_id (details s))
      then s\<lparr>details := map (\<lambda>r. if od_id r = od_id d then d else r) (details s)\<rparr>
      else s\<lparr>details := details s @ [d]\<rparr>)"

definition OfferDetail_save :: "OfferDetail \<Rightarrow> db \<Rightarrow> db" where
  "OfferDetail_save d s = write_row (round_price d) s"

text \<open>
  The validated scalar fields of an offer (\<open>title\<close>, \<open>description\<close>, \<open>image\<close>), as the
  serializer hands them to \<open>Offer.objects.create\<close>.
\<close>

record offer_attrs =
  a_title :: string
  a_description :: string
  a_image :: "string option"

text \<open>
  \<open>Offer.objects.create(**validated_data)\<close>: inserts the row; \<open>auto_now_add\<close> and
  \<open>auto_now\<close> stamp both times with the clock.
\<close>

definition Offer_objects_create :: "nat \<Rightarrow> pk \<Rightarrow> offer_attrs \<Rightarrow> db \<Rightarrow> Offer \<times> db" where
  "Offer_objects_create now user attrs s =
     (let ofr = \<lparr>offer_id = next_pk (map offer_id (offers s)), offer_user = user,
                 offer_title = a_title attrs, offer_description = a_description attrs,
                 offer_image = a_image attrs, updated_at = now, created_at = now\<rparr>
      in (ofr, s\<lparr>offers := offers s @ [ofr]\<rparr>))"

text \<open>
  \<open>OfferDetail(offer=offer, **detail)\<close> for validated data \<open>detail\<close>. Validated data
  always carries the features; the \<open>None\<close> case stands for a key that is not passed.
\<close>

definition new_OfferDetail :: "pk \<Rightarrow> pk \<Rightarrow> detail_data \<Rightarrow> OfferDetail" where
  "new_OfferDetail key offer d =
     \<lparr>od_id = key, od_title = dd_title d, od_price = dd_price d,
      od_delivery_time_in_days = dd_delivery_time_in_days d, od_offer = offer,
      od_features = (case dd_features d of None \<Rightarrow> [] | Some f \<Rightarrow> f),
      od_offer_type = dd_offer_type d, od_revisions = dd_revisions d\<rparr>"

text \<open>
  \<open>OfferDetail.objects.bulk_create\<close>: inserts the instances as they are, in order. The
  mapper documents that \<open>bulk_create\<close> does not call the model's \<open>save\<close> method, so
  \<open>round_price\<close> does not run here.
\<close>

fun bulk_create :: "pk \<Rightarrow> detail_data list \<Rightarrow> db \<Rightarrow> db" where
  "bulk_create offer [] s = s"
| "bulk_create offer (d # ds) s =
     bulk_create offer ds
       (s\<lparr>details := details s @ [new_OfferDetail (next_pk (map od_id (details s))) offer d]\<rparr>)"

text \<open>
  Assigning the keys of a detail entry to a row: \<open>**detail_data\<close> in
  \<open>QuerySet.update\<close> and the \<open>setattr\<close> loop of \<open>_update_detail_instance\<close>.
\<close>

definition set_fields :: "detail_data \<Rightarrow> OfferDetail \<Rightarrow> OfferDetail" where
  "set_fields d r =
     r\<lparr>od_id := (case dd_id d of None \<Rightarrow> od_id r | Some i \<Rightarrow> i),
       od_title := dd_title d, od_revisions := dd_revisions d,
       od_delivery_time_in_days := dd_delivery_time_in_days d,
       od_price := dd_price d,
       od_features := (case dd_features d of None \<Rightarrow> od_features r | Some f \<Rightarrow> f),
       od_offer_type := dd_offer_type d\<rparr>"

text \<open>
  \<open>OfferDetail.objects.filter(id=detail_id, offer=instance).update(**detail_data)\<close>: one
  SQL update of the matching rows. The mapper documents that \<open>QuerySet.update\<close> does
  not call \<open>save\<close>, so \<open>round_price\<close> does not run here either.
\<close>

definition queryset_update :: "pk \<Rightarrow> pk \<Rightarrow> detail_data \<Rightarrow> db \<Rightarrow> db" where
  "queryset_update detail_id offer d s =
     s\<lparr>details :=
        map (\<lambda>r. if od_id r = detail_id \<and> od_offer r = offer then set_fields d r else r)
          (details s)\<rparr>"

text \<open>\<open>instance.details.all()\<close>: the details of an offer.\<close>

definition details_of :: "db \<Rightarrow> pk \<Rightarrow> OfferDetail list" where
  "details_of s offer = filter (\<lambda>d. od_offer d = offer) (details s)"

text \<open>\<open>get_object_or_404(Offer, id=pk)\<close>.\<close>

definition get_object_or_404 :: "pk \<Rightarrow> db \<Rightarrow> error + Offer" where
  "get_object_or_404 key s =
     (case find (\<lambda>ofr. offer_id ofr = key) (offers s) of
        None \<Rightarrow> Inl NotFound | Some ofr \<Rightarrow> Inr ofr)"

text \<open>\<open>offer.delete()\<close>: the foreign key of \<open>OfferDetail.offer\<close> cascades.\<close>

definition Offer_delete :: "Offer \<Rightarrow> db \<Rightarrow> db" where
  "Offer_delete ofr s =
     \<lparr>offers = filter (\<lambda>x. offer_id x \<noteq> offer_id ofr) (offers s),
      details = filter (\<lambda>d. od_offer d \<noteq> offer_id ofr) (details s)\<rparr>"

text \<open>\<open>Offer.save\<close> of a loaded instance: writes its row; \<open>auto_now\<close> stamps the time.\<close>

definition Offer_save :: "nat \<Rightarrow> Offer \<Rightarrow> db \<Rightarrow> Offer \<times> db" where
  "Offer_save now ofr s =
     (let ofr' = ofr\<lparr>updated_at := now\<rparr>
      in (ofr', s\<lparr>offers := map (\<lambda>x. if offer_id x = offer_id ofr then ofr' else x) (offers s)\<rparr>))"

text \<open>\<open>aggregate(Min(...))\<close>: \<open>None\<close> over no rows.\<close>

definition Min_agg :: "'a::linorder list \<Rightarrow> 'a option" where
  "Min_agg xs = (case xs of [] \<Rightarrow> None | x # ys \<Rightarrow> Some (fold min ys x))"

definition get_min_price :: "db \<Rightarrow> Offer \<Rightarrow> rat option" where
  "get_min_price s ofr = Min_agg (map od_price (details_of s (offer_id ofr)))"

definition get_min_delivery_time :: "db \<Rightarrow> Offer \<Rightarrow> int option" where
  "get_min_delivery_time s ofr =
     Min_agg (map od_delivery_time_in_days (details_of s (offer_id ofr)))"

section \<open>Permissions\<close>

datatype http_method = GET | POST | PUT | PATCH | DELETE

datatype permission = AllowAny | IsAuthenticated | IsOwnerOrAdmin

text \<open>
  \<open>has_permission\<close> of the framework's classes; \<open>IsOwnerOrAdmin\<close> does not override it
  and inherits \<open>True\<close>.
\<close>

fun has_permission :: "permission \<Rightarrow> caller \<Rightarrow> bool" where
  "has_permission AllowAny c = True"
| "has_permission IsAuthenticated c = (c \<noteq> AnonymousUser)"
| "has_permission IsOwnerOrAdmin c = True"

text \<open>
  \<open>has_object_permission\<close>: \<open>IsOwnerOrAdmin\<close> of \<open>offers/api/permissions.py\<close>; the
  framework's classes inherit \<open>True\<close>. The anonymous user equals no owner and is not
  staff.
\<close>

fun has_object_permission :: "permission \<Rightarrow> caller \<Rightarrow> Offer \<Rightarrow> bool" where
  "has_object_permission IsOwnerOrAdmin AnonymousUser obj = False"
| "has_object_permission IsOwnerOrAdmin (Authenticated u) obj =
     (user_pk u = offer_user obj \<or> is_staff u)"
| "has_object_permission p c obj = True"

text \<open>
  \<open>permission_denied\<close>: a request without credentials is refused as not authenticated,
  an authenticated one as forbidden.
\<close>

definition permission_denied :: "caller \<Rightarrow> error" where
  "permission_denied c =
     (case c of AnonymousUser \<Rightarrow> NotAuthenticated | Authenticated u \<Rightarrow> PermissionDenied)"

definition check_permissions :: "permission list \<Rightarrow> caller \<Rightarrow> error option" where
  "check_permissions ps c =
     (if list_all (\<lambda>p. has_permission p c) ps then None else Some (permission_denied c))"

definition check_object_permissions ::
    "permission list \<Rightarrow> caller \<Rightarrow> Offer \<Rightarrow> error option" where
  "check_object_permissions ps c obj =
     (if list_all (\<lambda>p. has_object_permission p c obj) ps then None
      else Some (permission_denied c))"

text \<open>\<open>OfferListAPIView.get_permissions\<close>; the class default is \<open>[IsAuthenticated]\<close>.\<close>

definition OfferListAPIView_get_permissions :: "http_method \<Rightarrow> permission list" where
  "OfferListAPIView_get_permissions m = (if m = GET then [AllowAny] else [IsAuthenticated])"

text \<open>\<open>OfferDetailsAPIView.get_permissions\<close>; the class default is \<open>[IsAuthenticated]\<close>.\<close>

definition OfferDetailsAPIView_get_permissions :: "http_method \<Rightarrow> permission list" where
  "OfferDetailsAPIView_get_permissions m =
     (if m = PATCH then [IsOwnerOrAdmin] else [IsAuthenticated])"

text \<open>
  \<open>OfferListAPIView.is_business_user\<close>: \<open>getattr(user, 'profile', None)\<close> gives \<open>None\<close>
  for a user without profile.
\<close>

definition is_business_user :: "User \<Rightarrow> bool" where
  "is_business_user u =
     (case profile u of None \<Rightarrow> False | Some p \<Rightarrow> profile_type p = ''business'')"

text \<open>
  \<open>OfferDetailsAPIView.has_permission_to_delete\<close>:
  \<open>user == offer.user or user.is_staff and (user.profile.type == 'business' or user.is_staff)\<close>.
  \<open>and\<close> binds tighter than \<open>or\<close>, both short-circuit, and \<open>user.profile\<close> raises for a
  user without profile.
\<close>

definition has_permission_to_delete :: "User \<Rightarrow> Offer \<Rightarrow> error + bool" where
  "has_permission_to_delete u ofr =
     (if user_pk u = offer_user ofr then Inr True
      else if is_staff u then
        (case profile u of
           None \<Rightarrow> Inl RelatedObjectDoesNotExist
         | Some p \<Rightarrow> Inr (profile_type p = ''business'' \<or> is_staff u))
      else Inr False)"

section \<open>Creating an offer (\<open>OfferSerializer\<close>, \<open>OfferListAPIView\<close>)\<close>

text \<open>
  The body of a create request: the scalar fields, which the framework has validated
  before \<open>validate\<close> runs, and the raw \<open>details\<close> list, which may be missing.
\<close>

record create_request =
  cr_attrs :: offer_attrs
  cr_details :: "detail_data list option"

text \<open>
  \<open>OfferSerializer.validate\<close>. \<open>initial_data.get('details', [])\<close> defaults a missing
  list to the empty one. The comprehension keeps the validated data of every valid
  detail and appends the errors of every invalid one; any error raises.
\<close>

definition OfferSerializer_validate :: "detail_data list option \<Rightarrow> error + detail_data list" where
  "OfferSerializer_validate details_opt =
     (let details_data = (case details_opt of None \<Rightarrow> [] | Some ds \<Rightarrow> ds);
          errors = map detail_errors (filter (\<lambda>d. \<not> is_valid d) details_data);
          validated_details = map validated_data (filter is_valid details_data)
      in if errors \<noteq> [] then Inl (ValidationError errors) else Inr validated_details)"

text \<open>\<open>OfferSerializer.create\<close>, called by \<open>serializer.save(user=...)\<close>.\<close>

definition OfferSerializer_create ::
    "nat \<Rightarrow> pk \<Rightarrow> offer_attrs \<Rightarrow> detail_data list \<Rightarrow> db \<Rightarrow> Offer \<times> db" where
  "OfferSerializer_create now user attrs validated_details s =
     (let (ofr, s1) = Offer_objects_create now user attrs s
      in (ofr, bulk_create (offer_id ofr) validated_details s1))"

text \<open>
  \<open>OfferListAPIView.perform_create\<close>. Every operation returns its outcome together with
  the store it leaves behind, so that a failure shows what has been written.
\<close>

definition perform_create ::
    "User \<Rightarrow> nat \<Rightarrow> offer_attrs \<Rightarrow> detail_data list \<Rightarrow> db \<Rightarrow> (error + Offer) \<times> db" where
  "perform_create u now attrs validated_details s =
     (if \<not> is_business_user u then (Inl BusinessProfileRequired, s)
      else (let (ofr, s') = OfferSerializer_create now (user_pk u) attrs validated_details s
            in (Inr ofr, s')))"

text \<open>
  \<open>POST /offers/\<close>: the permission check of the view, then
  \<open>serializer.is_valid(raise_exception=True)\<close>, then \<open>perform_create\<close>. The
  permission check has already refused the anonymous user; the second case on the
  caller only names \<open>request.user\<close>.
\<close>

definition OfferListAPIView_post ::
    "caller \<Rightarrow> create_request \<Rightarrow> nat \<Rightarrow> db \<Rightarrow> (error + Offer) \<times> db" where
  "OfferListAPIView_post c req now s =
     (case check_permissions (OfferListAPIView_get_permissions POST) c of
        Some e \<Rightarrow> (Inl e, s)
      | None \<Rightarrow>
         (case c of
            AnonymousUser \<Rightarrow> (Inl NotAuthenticated, s)
          | Authenticated u \<Rightarrow>
             (case OfferSerializer_validate (cr_details req) of
                Inl e \<Rightarrow> (Inl e, s)
              | Inr validated_details \<Rightarrow>
                  perform_create u now (cr_attrs req) validated_details s)))"

section \<open>Reading offers\<close>

text \<open>
  The representation \<open>OfferSerializer\<close> gives outside a \<open>POST\<close>: the offer's fields, the
  details as references (\<open>OfferUrlSerializer\<close>: the key, from which the locator is
  built) and the two computed minima. \<open>OfferDetailsAPIView.get\<close> removes
  \<open>user_details\<close> from the data; the owner's profile fields are not modelled.
\<close>

record offer_view =
  ov_offer :: Offer
  ov_details :: "pk list"
  ov_min_price :: "rat option"
  ov_min_delivery_time :: "int option"

definition to_representation :: "db \<Rightarrow> Offer \<Rightarrow> offer_view" where
  "to_representation s ofr =
     \<lparr>ov_offer = ofr, ov_details = map od_id (details_of s (offer_id ofr)),
      ov_min_price = get_min_price s ofr,
      ov_min_delivery_time = get_min_delivery_time s ofr\<rparr>"

text \<open>\<open>GET /offers/<pk>/\<close>: \<open>OfferDetailsAPIView.get\<close> behind the view's permissions.\<close>

definition OfferDetailsAPIView_get :: "caller \<Rightarrow> pk \<Rightarrow> db \<Rightarrow> error + offer_view" where
  "OfferDetailsAPIView_get c key s =
     (case check_permissions (OfferDetailsAPIView_get_permissions GET) c of
        Some e \<Rightarrow> Inl e
      | None \<Rightarrow>
         (case get_object_or_404 key s of
            Inl e \<Rightarrow> Inl e
          | Inr ofr \<Rightarrow> Inr (to_representation s ofr)))"


section \<open>Ordering (\<open>offers/api/ordering.py\<close>)\<close>

text \<open>A row of the annotated queryset: the offer and \<open>min_price=Min('details__price')\<close>.\<close>

type_synonym row = "Offer \<times> rat option"

datatype direction = Ascending | Descending

text \<open>\<open>order_by\<close> reads a leading \<open>-\<close> as descending order.\<close>

definition parse_ordering :: "string \<Rightarrow> direction \<times> string" where
  "parse_ordering f =
     (case f of
        [] \<Rightarrow> (Ascending, f)
      | c # col \<Rightarrow> (if c = CHR ''-'' then (Descending, col) else (Ascending, f)))"

definition sort_rows :: "direction \<Rightarrow> (row \<Rightarrow> 'k::linorder) \<Rightarrow> row list \<Rightarrow> row list" where
  "sort_rows dir key rows =
     (case dir of Ascending \<Rightarrow> sort_key key rows | Descending \<Rightarrow> rev (sort_key key rows))"

text \<open>
  \<open>queryset.order_by(field)\<close> for the three columns \<open>apply_ordering\<close> can name; another
  name is reported as a field error. A null \<open>min_price\<close> (an offer without details) is
  put below every price.
\<close>

definition order_by :: "string \<Rightarrow> row list \<Rightarrow> error + row list" where
  "order_by f rows =
     (let (dir, col) = parse_ordering f
      in if col = ''created_at'' then Inr (sort_rows dir (\<lambda>r. created_at (fst r)) rows)
         else if col = ''updated_at'' then Inr (sort_rows dir (\<lambda>r. updated_at (fst r)) rows)
         else if col = ''min_price'' then Inr (sort_rows dir snd rows)
         else Inl FieldError)"

definition ordering_map :: "(string \<times> string) list" where
  "ordering_map =
     [(''-created_at'', ''-created_at''),
      (''created_at'', ''created_at''),
      (''min_price'', ''min_price''),
      (''-min_price'', ''-min_price''),
      (''-updated_at'', ''updated_at''),
      (''updated_at'', ''-updated_at'')]"

text \<open>\<open>OrderingHelperOffers.apply_ordering\<close>.\<close>

definition apply_ordering :: "row list \<Rightarrow> string \<Rightarrow> error + row list" where
  "apply_ordering queryset token =
     (let ordering_field =
            (case map_of ordering_map token of None \<Rightarrow> ''-updated_at'' | Some f \<Rightarrow> f)
      in order_by ordering_field queryset)"

section \<open>Listing offers (\<open>OfferListAPIView.get_queryset\<close>)\<close>

text \<open>
  The query parameters the method reads. A filter parameter is applied when its string
  is truthy: \<open>None\<close> stands for a parameter that is missing or empty, \<open>Some v\<close> for a
  non-empty string that denotes \<open>v\<close>. \<open>qp_ordering\<close> is the \<open>ordering\<close> token as sent.
\<close>

record query_params =
  qp_creator_id :: "pk option"
  qp_min_price :: "rat option"
  qp_max_delivery_time :: "int option"
  qp_ordering :: "string option"

text \<open>\<open>Offer.objects.annotate(min_price=Min('details__price'))\<close>.\<close>

definition annotate :: "db \<Rightarrow> row list" where
  "annotate s = map (\<lambda>ofr. (ofr, get_min_price s ofr)) (offers s)"

text \<open>\<open>filter(user_id=v)\<close>.\<close>

definition filter_user_id :: "pk \<Rightarrow> row list \<Rightarrow> row list" where
  "filter_user_id v rows = filter (\<lambda>r. offer_user (fst r) = v) rows"

text \<open>\<open>filter(min_price__gte=v)\<close>; a null \<open>min_price\<close> satisfies no comparison.\<close>

definition filter_min_price_gte :: "rat \<Rightarrow> row list \<Rightarrow> row list" where
  "filter_min_price_gte v rows =
     filter (\<lambda>r. case snd r of None \<Rightarrow> False | Some m \<Rightarrow> v \<le> m) rows"

text \<open>
  \<open>filter(details__delivery_time_in_days__lte=v)\<close>: the join keeps an offer that has a
  detail satisfying the comparison; the annotation, made before, still ranges over all
  details, and the grouping by offer keeps one row for each offer.
\<close>

definition filter_delivery_time_lte :: "db \<Rightarrow> int \<Rightarrow> row list \<Rightarrow> row list" where
  "filter_delivery_time_lte s v rows =
     filter (\<lambda>r. list_ex (\<lambda>d. od_delivery_time_in_days d \<le> v)
                   (details_of s (offer_id (fst r)))) rows"

definition apply_filter :: "'a option \<Rightarrow> ('a \<Rightarrow> row list \<Rightarrow> row list) \<Rightarrow> row list \<Rightarrow> row list" where
  "apply_filter value f rows = (case value of None \<Rightarrow> rows | Some v \<Rightarrow> f v rows)"

text \<open>
  The queryset before ordering: the loop over the three filters, each applied
  \<open>if value\<close>.
\<close>

definition filtered :: "query_params \<Rightarrow> db \<Rightarrow> row list" where
  "filtered q s =
     apply_filter (qp_max_delivery_time q) (filter_delivery_time_lte s)
       (apply_filter (qp_min_price q) filter_min_price_gte
         (apply_filter (qp_creator_id q) filter_user_id (annotate s)))"

text \<open>\<open>query_params.get('ordering', 'updated_at')\<close>, then \<open>apply_ordering\<close>.\<close>

definition get_queryset :: "query_params \<Rightarrow> db \<Rightarrow> error + row list" where
  "get_queryset q s =
     (let token = (case qp_ordering q of None \<Rightarrow> ''updated_at'' | Some t \<Rightarrow> t)
      in apply_ordering (filtered q s) token)"


section \<open>Updating an offer (\<open>AllOfferDetailsSerializer\<close>, \<open>OfferDetailsAPIView.update\<close>)\<close>

text \<open>
  The body of an update request: every key may be missing (the serializer is partial);
  \<open>image\<close> may be set to null.
\<close>

record patch =
  p_title :: "string option"
  p_description :: "string option"
  p_image :: "string option option"
  p_details :: "detail_data list option"

text \<open>
  \<open>AllOfferDetailsSerializer.validate\<close>: every entry of the raw \<open>details\<close> list goes
  through an \<open>OfferDetailSerializer\<close>; any error raises.
\<close>

definition AllOfferDetailsSerializer_validate ::
    "detail_data list option \<Rightarrow> error + detail_data list" where
  "AllOfferDetailsSerializer_validate details_opt =
     (let details_data = (case details_opt of None \<Rightarrow> [] | Some ds \<Rightarrow> ds);
          errors = map detail_errors (filter (\<lambda>d. \<not> is_valid d) details_data)
      in if errors \<noteq> [] then Inl (ValidationError errors)
         else Inr (map validated_data (filter is_valid details_data)))"

text \<open>
  The validated data of the patch: the nested \<open>details\<close> field is an
  \<open>OfferSingleDetailsSerializer\<close>, whose \<open>id\<close> is the automatic key and read-only, so
  the validated entries carry no \<open>id\<close>.
\<close>

definition validated_patch :: "patch \<Rightarrow> patch" where
  "validated_patch p = p\<lparr>p_details := map_option (map validated_data) (p_details p)\<rparr>"

text \<open>\<open>_update_detail_instance\<close>: the \<open>setattr\<close> loop, then \<open>save\<close>.\<close>

definition update_detail_instance :: "OfferDetail \<Rightarrow> detail_data \<Rightarrow> db \<Rightarrow> db" where
  "update_detail_instance detail_instance d s = OfferDetail_save (set_fields d detail_instance) s"

text \<open>
  The loop of \<open>_update_details\<close> over the entries, with the dictionary
  \<open>existing_details\<close> (keys are primary keys); \<open>if detail_id\<close> is false for a missing
  and for a zero key, and \<open>pop\<close> removes the key it serves.
\<close>

fun update_details_loop :: "(pk \<times> OfferDetail) list \<Rightarrow> detail_data list \<Rightarrow> db \<Rightarrow> db" where
  "update_details_loop existing [] s = s"
| "update_details_loop existing (d # ds) s =
     (case dd_id d of
        None \<Rightarrow> update_details_loop existing ds s
      | Some i \<Rightarrow>
         (if i = 0 then update_details_loop existing ds s
          else (case map_of existing i of
                  None \<Rightarrow> update_details_loop existing ds s
                | Some detail_instance \<Rightarrow>
                    update_details_loop (filter (\<lambda>kv. fst kv \<noteq> i) existing) ds
                      (update_detail_instance detail_instance d s))))"

text \<open>
  \<open>_update_details\<close>; \<open>instance.details.all()\<close> is the list the view prefetched when it
  loaded the instance.
\<close>

definition update_details :: "OfferDetail list \<Rightarrow> detail_data list \<Rightarrow> db \<Rightarrow> db" where
  "update_details prefetched details_data s =
     update_details_loop (map (\<lambda>d. (od_id d, d)) prefetched) details_data s"

text \<open>
  \<open>AllOfferDetailsSerializer.update\<close>: sets the validated scalar fields, runs
  \<open>_update_details\<close> when the validated \<open>details\<close> are truthy, saves the instance.
\<close>

definition AllOfferDetailsSerializer_update ::
    "nat \<Rightarrow> Offer \<Rightarrow> OfferDetail list \<Rightarrow> patch \<Rightarrow> db \<Rightarrow> Offer \<times> db" where
  "AllOfferDetailsSerializer_update now instance prefetched v s =
     (let instance1 = instance
            \<lparr>offer_title := (case p_title v of None \<Rightarrow> offer_title instance | Some t \<Rightarrow> t),
             offer_description :=
               (case p_description v of None \<Rightarrow> offer_description instance | Some t \<Rightarrow> t),
             offer_image := (case p_image v of None \<Rightarrow> offer_image instance | Some i \<Rightarrow> i)\<rparr>;
          s1 = (case p_details v of
                  None \<Rightarrow> s
                | Some ds \<Rightarrow> if ds = [] then s else update_details prefetched ds s)
      in Offer_save now instance1 s1)"

text \<open>
  The loop of \<open>OfferDetailsAPIView.update\<close> over \<open>request.data.get('details')\<close>: an
  entry with a truthy \<open>id\<close> updates the rows of that key that belong to the instance.
\<close>

fun view_update_loop :: "Offer \<Rightarrow> detail_data list \<Rightarrow> db \<Rightarrow> db" where
  "view_update_loop instance [] s = s"
| "view_update_loop instance (d # ds) s =
     view_update_loop instance ds
       (case dd_id d of
          None \<Rightarrow> s
        | Some i \<Rightarrow> if i = 0 then s else queryset_update i (offer_id instance) d s)"

text \<open>
  \<open>OfferDetailsAPIView.update\<close>, reached by \<open>PATCH\<close> and \<open>PUT\<close>: the permission check of
  the view, \<open>get_object\<close> with its object permission check, \<open>is_valid\<close>, the loop over
  the raw details (iterating over a missing list raises \<open>TypeError\<close>), then
  \<open>serializer.save()\<close>. The outcome carries the saved instance, from which the response
  is built.
\<close>

definition OfferDetailsAPIView_update ::
    "http_method \<Rightarrow> caller \<Rightarrow> pk \<Rightarrow> patch \<Rightarrow> nat \<Rightarrow> db \<Rightarrow> (error + Offer) \<times> db" where
  "OfferDetailsAPIView_update m c key p now s =
     (let perms = OfferDetailsAPIView_get_permissions m
      in case check_permissions perms c of
           Some e \<Rightarrow> (Inl e, s)
         | None \<Rightarrow>
            (case get_object_or_404 key s of
               Inl e \<Rightarrow> (Inl e, s)
             | Inr instance \<Rightarrow>
                (case check_object_permissions perms c instance of
                   Some e \<Rightarrow> (Inl e, s)
                 | None \<Rightarrow>
                    (case AllOfferDetailsSerializer_validate (p_details p) of
                       Inl e \<Rightarrow> (Inl e, s)
                     | Inr validated_details \<Rightarrow>
                        (case p_details p of
                           None \<Rightarrow> (Inl TypeError, s)
                         | Some details_data \<Rightarrow>
                            (let prefetched = details_of s (offer_id instance);
                                 s1 = view_update_loop instance details_data s;
                                 (instance', s2) =
                                    AllOfferDetailsSerializer_update now instance prefetched
                                      (validated_patch p) s1
                             in (Inr instance', s2)))))))"

section \<open>Deleting an offer (\<open>OfferDetailsAPIView.delete\<close>)\<close>

definition OfferDetailsAPIView_delete :: "caller \<Rightarrow> pk \<Rightarrow> db \<Rightarrow> (error + unit) \<times> db" where
  "OfferDetailsAPIView_delete c key s =
     (case check_permissions (OfferDetailsAPIView_get_permissions DELETE) c of
        Some e \<Rightarrow> (Inl e, s)
      | None \<Rightarrow>
         (case c of
            AnonymousUser \<Rightarrow> (Inl NotAuthenticated, s)
          | Authenticated u \<Rightarrow>
             (case get_object_or_404 key s of
                Inl e \<Rightarrow> (Inl e, s)
              | Inr ofr \<Rightarrow>
                 (case has_permission_to_delete u ofr of
                    Inl e \<Rightarrow> (Inl e, s)
                  | Inr allowed \<Rightarrow>
                      if \<not> allowed then (Inl PermissionDenied, s)
                      else (Inr (), Offer_delete ofr s)))))"

section \<open>Properties stated by the specification\<close>

text \<open>The result is a rearrangement of the rows, in the order of the key.\<close>

definition ascending_by :: "(row \<Rightarrow> 'k::linorder) \<Rightarrow> row list \<Rightarrow> row list \<Rightarrow> bool" where
  "ascending_by key rows res \<longleftrightarrow> mset res = mset rows \<and> sorted (map key res)"

definition descending_by :: "(row \<Rightarrow> 'k::linorder) \<Rightarrow> row list \<Rightarrow> row list \<Rightarrow> bool" where
  "descending_by key rows res \<longleftrightarrow> mset res = mset rows \<and> sorted (rev (map key res))"

text \<open>The six tokens of the ordering vocabulary.\<close>

definition vocabulary :: "string list" where
  "vocabulary =
     [''created_at'', ''-created_at'', ''min_price'', ''-min_price'',
      ''updated_at'', ''-updated_at'']"

text \<open>
  Referential integrity of the store: every detail belongs to an offer of the store.
\<close>

definition fk_integrity :: "db \<Rightarrow> bool" where
  "fk_integrity s \<longleftrightarrow> list_all (\<lambda>d. od_offer d \<in> set (map offer_id (offers s))) (details s)"

text \<open>
  A caller is authorized for an update when the permission check of the view and the
  object permission check on the loaded offer both pass.
\<close>

definition authorized :: "http_method \<Rightarrow> caller \<Rightarrow> Offer \<Rightarrow> bool" where
  "authorized m c obj \<longleftrightarrow>
     check_permissions (OfferDetailsAPIView_get_permissions m) c = None \<and>
     check_object_permissions (OfferDetailsAPIView_get_permissions m) c obj = None"

section \<open>A small store used in the examples\<close>

definition example_owner :: User where
  "example_owner = \<lparr>user_pk = 1, is_staff = False,
     profile = Some \<lparr>profile_type = ''business''\<rparr>\<rparr>"

definition example_staff_customer :: User where
  "example_staff_customer = \<lparr>user_pk = 2, is_staff = True,
     profile = Some \<lparr>profile_type = ''customer''\<rparr>\<rparr>"

definition example_offer :: Offer where
  "example_offer = \<lparr>offer_id = 1, offer_user = 1, offer_title = ''Logo'',
     offer_description = ''Vector logo'', offer_image = None,
     updated_at = 10, created_at = 10\<rparr>"

definition example_basic :: OfferDetail where
  "example_basic = \<lparr>od_id = 1, od_title = ''Basic'', od_price = 50,
     od_delivery_time_in_days = 7, od_offer = 1, od_features = [''one draft''],
     od_offer_type = Basic, od_revisions = 1\<rparr>"

definition example_premium :: OfferDetail where
  "example_premium = \<lparr>od_id = 2, od_title = ''Premium'', od_price = 120,
     od_delivery_time_in_days = 3, od_offer = 1, od_features = [''three drafts''],
     od_offer_type = Premium, od_revisions = - 1\<rparr>"

definition example_db :: db where
  "example_db = \<lparr>offers = [example_offer], details = [example_basic, example_premium]\<rparr>"

text \<open>A detail entry of a request, valid, with a price of three fractional digits.\<close>

definition example_entry :: detail_data where
  "example_entry = \<lparr>dd_id = None, dd_title = ''Basic'', dd_revisions = 2,
     dd_delivery_time_in_days = 5, dd_price = 10999 / 1000,
     dd_features = Some [''one draft''], dd_offer_type = Basic\<rparr>"


section \<open>Detail validation: properties\<close>


lemma field_error_keys: "fst ` set (field_error name r) \<subseteq> {name}"
  by (cases r) (simp_all add: field_error_def)










section \<open>Ordering: properties\<close>


lemma sort_rows_ascending: "ascending_by key rows (sort_rows Ascending key rows)"
  by (simp add: ascending_by_def sort_rows_def)

lemma sort_rows_descending: "descending_by key rows (sort_rows Descending key rows)"
  by (simp add: descending_by_def sort_rows_def rev_map [symmetric])

lemma ordering_field_cases:
  "(case map_of ordering_map token of None \<Rightarrow> ''-updated_at'' | Some f \<Rightarrow> f) =
     (if token = ''-updated_at'' then ''updated_at''
      else if token \<in> set vocabulary \<and> token \<noteq> ''updated_at'' then token
      else ''-updated_at'')"
  by (simp add: ordering_map_def vocabulary_def)

lemma apply_ordering_created_at:
  "apply_ordering rows ''created_at'' = Inr (sort_rows Ascending (\<lambda>r. created_at (fst r)) rows)"
  by (simp add: apply_ordering_def ordering_map_def order_by_def parse_ordering_def)

lemma apply_ordering_created_at_desc:
  "apply_ordering rows ''-created_at'' = Inr (sort_rows Descending (\<lambda>r. created_at (fst r)) rows)"
  by (simp add: apply_ordering_def ordering_map_def order_by_def parse_ordering_def)

lemma apply_ordering_min_price:
  "apply_ordering rows ''min_price'' = Inr (sort_rows Ascending snd rows)"
  by (simp add: apply_ordering_def ordering_map_def order_by_def parse_ordering_def)

lemma apply_ordering_min_price_desc:
  "apply_ordering rows ''-min_price'' = Inr (sort_rows Descending snd rows)"
  by (simp add: apply_ordering_def ordering_map_def order_by_def parse_ordering_def)

lemma apply_ordering_updated_at:
  "apply_ordering rows ''updated_at'' = Inr (sort_rows Descending (\<lambda>r. updated_at (fst r)) rows)"
  by (simp add: apply_ordering_def ordering_map_def order_by_def parse_ordering_def)

lemma apply_ordering_updated_at_desc:
  "apply_ordering rows ''-updated_at'' = Inr (sort_rows Ascending (\<lambda>r. updated_at (fst r)) rows)"
  by (simp add: apply_ordering_def ordering_map_def order_by_def parse_ordering_def)

lemma ordering_map_keys: "fst ` set ordering_map = set vocabulary"
  unfolding ordering_map_def vocabulary_def by (simp add: insert_commute)

lemma order_by_default:
  "order_by ''-updated_at'' rows = Inr (sort_rows Descending (\<lambda>r. updated_at (fst r)) rows)"
  by (simp add: order_by_def parse_ordering_def)

lemma apply_ordering_default:
  assumes "token \<notin> set vocabulary"
  shows "apply_ordering rows token = Inr (sort_rows Descending (\<lambda>r. updated_at (fst r)) rows)"
proof -
  have "map_of ordering_map token = None"
    using assms by (simp add: map_of_eq_None_iff ordering_map_keys)
  then show ?thesis
    by (simp add: apply_ordering_def order_by_default)
qed

lemma apply_ordering_vocabulary:
  "\<forall>token \<in> set vocabulary. \<exists>res. apply_ordering rows token = Inr res \<and> mset res = mset rows"
  unfolding vocabulary_def
  by (simp add: apply_ordering_created_at apply_ordering_created_at_desc
        apply_ordering_min_price apply_ordering_min_price_desc apply_ordering_updated_at
        apply_ordering_updated_at_desc sort_rows_def)

lemma apply_ordering_total: "\<exists>res. apply_ordering rows token = Inr res \<and> mset res = mset rows"
proof (cases "token \<in> set vocabulary")
  case True
  then show ?thesis
    using apply_ordering_vocabulary [of rows] by blast
next
  case False
  then show ?thesis
    by (simp add: apply_ordering_default sort_rows_def)
qed



text \<open>
  C4. The ordering resolution: \<open>created_at\<close> and \<open>-created_at\<close> sort ascending and
  descending by creation time, \<open>min_price\<close> and \<open>-min_price\<close> ascending and descending
  by minimum price, \<open>updated_at\<close> sorts descending by update time and \<open>-updated_at\<close>
  ascending (the inverted pair); every other token, the empty one included, and a
  missing token in the list request give the most recently updated offers first.
\<close>

theorem C4_ordering_resolution:
  "(\<exists>res. apply_ordering rows ''created_at'' = Inr res \<and>
       ascending_by (\<lambda>r. created_at (fst r)) rows res) \<and>
   (\<exists>res. apply_ordering rows ''-created_at'' = Inr res \<and>
       descending_by (\<lambda>r. created_at (fst r)) rows res) \<and>
   (\<exists>res. apply_ordering rows ''min_price'' = Inr res \<and> ascending_by snd rows res) \<and>
   (\<exists>res. apply_ordering rows ''-min_price'' = Inr res \<and> descending_by snd rows res) \<and>
   (\<exists>res. apply_ordering rows ''updated_at'' = Inr res \<and>
       descending_by (\<lambda>r. updated_at (fst r)) rows res) \<and>
   (\<exists>res. apply_ordering rows ''-updated_at'' = Inr res \<and>
       ascending_by (\<lambda>r. updated_at (fst r)) rows res) \<and>
   (token \<notin> set vocabulary \<longrightarrow>
      (\<exists>res. apply_ordering rows token = Inr res \<and>
         descending_by (\<lambda>r. updated_at (fst r)) rows res)) \<and>
   (\<exists>res. apply_ordering rows [] = Inr res \<and>
       descending_by (\<lambda>r. updated_at (fst r)) rows res) \<and>
   (qp_ordering q = None \<longrightarrow>
      (\<exists>res. get_queryset q s = Inr res \<and>
         descending_by (\<lambda>r. updated_at (fst r)) (filtered q s) res))"
proof -
  have empty: "[] \<notin> set vocabulary"
    by (simp add: vocabulary_def)
  show ?thesis
    by (simp add: apply_ordering_created_at apply_ordering_created_at_desc
          apply_ordering_min_price apply_ordering_min_price_desc apply_ordering_updated_at
          apply_ordering_updated_at_desc apply_ordering_default [OF empty]
          apply_ordering_default get_queryset_def sort_rows_ascending sort_rows_descending)
qed


text \<open>The token \<open>bogus\<close> and a request without token, on the example store.\<close>

theorem C4_ordering_resolution_witness:
  "''bogus'' \<notin> set vocabulary \<and>
   (\<exists>res. apply_ordering (annotate example_db) ''bogus'' = Inr res \<and>
      descending_by (\<lambda>r. updated_at (fst r)) (annotate example_db) res) \<and>
   (\<exists>res. get_queryset \<lparr>qp_creator_id = None, qp_min_price = None,
             qp_max_delivery_time = None, qp_ordering = None\<rparr> example_db = Inr res \<and>
      descending_by (\<lambda>r. updated_at (fst r))
        (filtered \<lparr>qp_creator_id = None, qp_min_price = None,
             qp_max_delivery_time = None, qp_ordering = None\<rparr> example_db) res)"
proof -
  have bogus: "''bogus'' \<notin> set vocabulary"
    by (simp add: vocabulary_def)
  show ?thesis
    using bogus
      C4_ordering_resolution [of "annotate example_db" "''bogus''"
        "\<lparr>qp_creator_id = None, qp_min_price = None,
          qp_max_delivery_time = None, qp_ordering = None\<rparr>" example_db]
    by simp
qed

section \<open>Listing and reading: properties\<close>

lemma get_queryset_total:
  "\<exists>res. get_queryset q s = Inr res \<and> mset res = mset (filtered q s)"
  by (simp add: get_queryset_def apply_ordering_total)

lemma annotate_iff:
  "r \<in> set (annotate s) \<longleftrightarrow> fst r \<in> set (offers s) \<and> snd r = get_min_price s (fst r)"
  by (cases r) (auto simp add: annotate_def)


lemma apply_filter_user_id:
  "r \<in> set (apply_filter x filter_user_id rows) \<longleftrightarrow>
     r \<in> set rows \<and> (\<forall>v. x = Some v \<longrightarrow> offer_user (fst r) = v)"
  by (cases x) (simp_all add: apply_filter_def filter_user_id_def)

lemma apply_filter_min_price:
  "r \<in> set (apply_filter x filter_min_price_gte rows) \<longleftrightarrow>
     r \<in> set rows \<and> (\<forall>v. x = Some v \<longrightarrow> (\<exists>m. snd r = Some m \<and> v \<le> m))"
  by (cases x; cases "snd r") (simp_all add: apply_filter_def filter_min_price_gte_def)

lemma apply_filter_delivery_time:
  "r \<in> set (apply_filter x (filter_delivery_time_lte s) rows) \<longleftrightarrow>
     r \<in> set rows \<and>
     (\<forall>v. x = Some v \<longrightarrow>
        (\<exists>d \<in> set (details s). od_offer d = offer_id (fst r) \<and>
           od_delivery_time_in_days d \<le> v))"
  by (cases x)
     (auto simp add: apply_filter_def filter_delivery_time_lte_def details_of_def list_ex_iff)

lemma filtered_iff:
  "r \<in> set (filtered q s) \<longleftrightarrow>
     r \<in> set (annotate s) \<and>
     (\<forall>v. qp_creator_id q = Some v \<longrightarrow> offer_user (fst r) = v) \<and>
     (\<forall>v. qp_min_price q = Some v \<longrightarrow> (\<exists>m. snd r = Some m \<and> v \<le> m)) \<and>
     (\<forall>v. qp_max_delivery_time q = Some v \<longrightarrow>
        (\<exists>d \<in> set (details s). od_offer d = offer_id (fst r) \<and>
           od_delivery_time_in_days d \<le> v))"
  unfolding filtered_def apply_filter_delivery_time apply_filter_min_price
    apply_filter_user_id
  by blast


lemma fst_filtered_iff:
  "ofr \<in> fst ` set (filtered q s) \<longleftrightarrow> (ofr, get_min_price s ofr) \<in> set (filtered q s)"
proof
  assume "ofr \<in> fst ` set (filtered q s)"
  then obtain mp where mem: "(ofr, mp) \<in> set (filtered q s)"
    by auto
  then have "(ofr, mp) \<in> set (annotate s)"
    by (simp only: filtered_iff)
  then have "mp = get_min_price s ofr"
    by (simp add: annotate_iff)
  with mem show "(ofr, get_min_price s ofr) \<in> set (filtered q s)"
    by simp
next
  assume "(ofr, get_min_price s ofr) \<in> set (filtered q s)"
  then show "ofr \<in> fst ` set (filtered q s)"
    by (rule image_eqI [rotated]) simp
qed

lemma offer_listed_iff:
  "ofr \<in> fst ` set (filtered q s) \<longleftrightarrow>
     ofr \<in> set (offers s) \<and>
     (\<forall>v. qp_creator_id q = Some v \<longrightarrow> offer_user ofr = v) \<and>
     (\<forall>v. qp_min_price q = Some v \<longrightarrow> (\<exists>m. get_min_price s ofr = Some m \<and> v \<le> m)) \<and>
     (\<forall>x. qp_max_delivery_time q = Some x \<longrightarrow>
        (\<exists>d \<in> set (details s). od_offer d = offer_id ofr \<and>
           od_delivery_time_in_days d \<le> x))"
  unfolding fst_filtered_iff filtered_iff annotate_iff by simp


text \<open>
  C9. A list request returns the filtered set in the resolved order. An offer is listed
  exactly when it satisfies every filter that is given: its owner is the creator
  asked for, its minimum price is at least the one asked for, and at least one of its
  details has a delivery time of at most \<open>max_delivery_time\<close>. A filter that is not
  given imposes nothing.
\<close>

theorem C9_filtering:
  "\<exists>res. get_queryset q s = Inr res \<and>
     get_queryset q s =
       apply_ordering (filtered q s)
         (case qp_ordering q of None \<Rightarrow> ''updated_at'' | Some t \<Rightarrow> t) \<and>
     mset res = mset (filtered q s) \<and>
     (\<forall>ofr. ofr \<in> fst ` set res \<longleftrightarrow>
        ofr \<in> set (offers s) \<and>
        (\<forall>v. qp_creator_id q = Some v \<longrightarrow> offer_user ofr = v) \<and>
        (\<forall>v. qp_min_price q = Some v \<longrightarrow> (\<exists>m. get_min_price s ofr = Some m \<and> v \<le> m)) \<and>
        (\<forall>x. qp_max_delivery_time q = Some x \<longrightarrow>
           (\<exists>d \<in> set (details s). od_offer d = offer_id ofr \<and>
              od_delivery_time_in_days d \<le> x)))"
proof -
  obtain res where res: "get_queryset q s = Inr res" "mset res = mset (filtered q s)"
    using get_queryset_total by blast
  have "set res = set (filtered q s)"
    using res(2) by (rule mset_eq_setD)
  then have listed: "\<forall>ofr. ofr \<in> fst ` set res \<longleftrightarrow>
        ofr \<in> set (offers s) \<and>
        (\<forall>v. qp_creator_id q = Some v \<longrightarrow> offer_user ofr = v) \<and>
        (\<forall>v. qp_min_price q = Some v \<longrightarrow> (\<exists>m. get_min_price s ofr = Some m \<and> v \<le> m)) \<and>
        (\<forall>x. qp_max_delivery_time q = Some x \<longrightarrow>
           (\<exists>d \<in> set (details s). od_offer d = offer_id ofr \<and>
              od_delivery_time_in_days d \<le> x))"
    by (simp only: offer_listed_iff) simp
  have unfolded: "get_queryset q s =
       apply_ordering (filtered q s)
         (case qp_ordering q of None \<Rightarrow> ''updated_at'' | Some t \<Rightarrow> t)"
    by (simp add: get_queryset_def)
  from res listed unfolded show ?thesis
    by (intro exI [of _ res] conjI)
qed


text \<open>
  The example offer has details with delivery times 7 and 3 and is listed under
  \<open>max_delivery_time = 5\<close>.
\<close>

theorem C9_filtering_witness:
  "\<exists>res. get_queryset \<lparr>qp_creator_id = None, qp_min_price = None,
            qp_max_delivery_time = Some 5, qp_ordering = None\<rparr> example_db = Inr res \<and>
     example_offer \<in> fst ` set res \<and>
     map od_delivery_time_in_days (details_of example_db (offer_id example_offer)) = [7, 3]"
proof -
  let ?q = "\<lparr>qp_creator_id = None, qp_min_price = None,
            qp_max_delivery_time = Some 5, qp_ordering = None\<rparr>"
  obtain res where res: "get_queryset ?q example_db = Inr res"
    and listed: "\<forall>ofr. ofr \<in> fst ` set res \<longleftrightarrow>
        ofr \<in> set (offers example_db) \<and>
        (\<forall>v. qp_creator_id ?q = Some v \<longrightarrow> offer_user ofr = v) \<and>
        (\<forall>v. qp_min_price ?q = Some v \<longrightarrow>
           (\<exists>m. get_min_price example_db ofr = Some m \<and> v \<le> m)) \<and>
        (\<forall>x. qp_max_delivery_time ?q = Some x \<longrightarrow>
           (\<exists>d \<in> set (details example_db). od_offer d = offer_id ofr \<and>
              od_delivery_time_in_days d \<le> x))"
    using C9_filtering [of ?q example_db] by blast
  have "example_offer \<in> fst ` set res"
    unfolding listed [rule_format]
    by (simp add: example_db_def example_offer_def example_basic_def example_premium_def)
  moreover have "map od_delivery_time_in_days (details_of example_db (offer_id example_offer)) = [7, 3]"
    by (simp add: details_of_def example_db_def example_offer_def example_basic_def
          example_premium_def)
  ultimately show ?thesis
    using res by (intro exI [of _ res] conjI)
qed






section \<open>Creating: properties\<close>

lemma fold_max_ge: "(a::nat) \<le> fold max xs a \<and> (\<forall>x \<in> set xs. x \<le> fold max xs a)"
proof (induction xs arbitrary: a)
  case Nil
  then show ?case by simp
next
  case (Cons y ys)
  have "max y a \<le> fold max ys (max y a)" and "\<forall>x \<in> set ys. x \<le> fold max ys (max y a)"
    using Cons.IH [of "max y a"] by simp_all
  then show ?case by auto
qed

lemma next_pk_fresh: "next_pk ids \<notin> set ids"
proof
  assume "next_pk ids \<in> set ids"
  then have "next_pk ids \<le> fold max ids 0"
    using fold_max_ge [of 0 ids] by blast
  then show False by (simp add: next_pk_def)
qed

lemma find_append_fresh:
  "\<forall>x \<in> set xs. \<not> P x \<Longrightarrow> P y \<Longrightarrow> find P (xs @ [y]) = Some y"
  by (induction xs) simp_all

lemma new_OfferDetail_key: "(new_OfferDetail k offer d)\<lparr>od_id := 0\<rparr> = new_OfferDetail 0 offer d"
  by (simp add: new_OfferDetail_def)


lemma bulk_create_offers: "offers (bulk_create offer ds s) = offers s"
  by (induction ds arbitrary: s) simp_all

lemma bulk_create_details:
  "\<exists>rows. details (bulk_create offer ds s) = details s @ rows \<and>
     map (\<lambda>r. r\<lparr>od_id := 0\<rparr>) rows = map (new_OfferDetail 0 offer) ds"
proof (induction ds arbitrary: s)
  case Nil
  then show ?case by simp
next
  case (Cons d ds)
  let ?row = "new_OfferDetail (next_pk (map od_id (details s))) offer d"
  let ?s1 = "s\<lparr>details := details s @ [?row]\<rparr>"
  obtain rows where rows: "details (bulk_create offer ds ?s1) = details ?s1 @ rows"
      "map (\<lambda>r. r\<lparr>od_id := 0\<rparr>) rows = map (new_OfferDetail 0 offer) ds"
    using Cons.IH [of ?s1] by blast
  have "details (bulk_create offer (d # ds) s) = details s @ (?row # rows)"
    using rows(1) by simp
  moreover have "map (\<lambda>r. r\<lparr>od_id := 0\<rparr>) (?row # rows) = map (new_OfferDetail 0 offer) (d # ds)"
    using rows(2) by (simp add: new_OfferDetail_key)
  ultimately show ?case by blast
qed


lemma validate_valid:
  assumes "\<forall>d \<in> set ds. is_valid d"
  shows "OfferSerializer_validate (Some ds) = Inr (map validated_data ds)"
proof -
  have "filter (\<lambda>d. \<not> is_valid d) ds = []" and "filter is_valid ds = ds"
    using assms by (simp_all add: filter_empty_conv filter_id_conv)
  then show ?thesis
    by (simp add: OfferSerializer_validate_def)
qed

lemma validate_missing: "OfferSerializer_validate None = Inr []"
  by (simp add: OfferSerializer_validate_def)

lemma post_authenticated:
  "OfferListAPIView_post (Authenticated u) req now s =
     (case OfferSerializer_validate (cr_details req) of
        Inl e \<Rightarrow> (Inl e, s)
      | Inr validated_details \<Rightarrow> perform_create u now (cr_attrs req) validated_details s)"
  by (simp add: OfferListAPIView_post_def OfferListAPIView_get_permissions_def
        check_permissions_def)

lemma perform_create_business:
  assumes "is_business_user u"
  shows "\<exists>ofr rows. perform_create u now a vds s =
       (Inr ofr, \<lparr>offers = offers s @ [ofr], details = details s @ rows\<rparr>) \<and>
     ofr = \<lparr>offer_id = next_pk (map offer_id (offers s)), offer_user = user_pk u,
            offer_title = a_title a, offer_description = a_description a,
            offer_image = a_image a, updated_at = now, created_at = now\<rparr> \<and>
     map (\<lambda>r. r\<lparr>od_id := 0\<rparr>) rows = map (new_OfferDetail 0 (offer_id ofr)) vds"
proof -
  let ?ofr = "\<lparr>offer_id = next_pk (map offer_id (offers s)), offer_user = user_pk u,
            offer_title = a_title a, offer_description = a_description a,
            offer_image = a_image a, updated_at = now, created_at = now\<rparr>"
  let ?s1 = "s\<lparr>offers := offers s @ [?ofr]\<rparr>"
  obtain rows where rows: "details (bulk_create (offer_id ?ofr) vds ?s1) = details ?s1 @ rows"
      "map (\<lambda>r. r\<lparr>od_id := 0\<rparr>) rows = map (new_OfferDetail 0 (offer_id ?ofr)) vds"
    using bulk_create_details [of "offer_id ?ofr" vds ?s1] by blast
  have "bulk_create (offer_id ?ofr) vds ?s1 =
      \<lparr>offers = offers s @ [?ofr], details = details s @ rows\<rparr>"
    using rows(1) bulk_create_offers [of "offer_id ?ofr" vds ?s1] by simp
  then have "perform_create u now a vds s =
      (Inr ?ofr, \<lparr>offers = offers s @ [?ofr], details = details s @ rows\<rparr>)"
    using assms
    by (simp add: perform_create_def OfferSerializer_create_def Offer_objects_create_def Let_def)
  with rows(2) show ?thesis by blast
qed




lemma Min_agg_empty: "Min_agg [] = None"
  by (simp add: Min_agg_def)

lemma details_of_new_offer:
  assumes "fk_integrity s"
  shows "details_of \<lparr>offers = offers s @ [ofr], details = details s\<rparr>
           (next_pk (map offer_id (offers s))) = []"
proof -
  have "\<forall>d \<in> set (details s). od_offer d \<noteq> next_pk (map offer_id (offers s))"
  proof
    fix d assume "d \<in> set (details s)"
    then have "od_offer d \<in> set (map offer_id (offers s))"
      using assms by (simp add: fk_integrity_def list_all_iff)
    then show "od_offer d \<noteq> next_pk (map offer_id (offers s))"
      using next_pk_fresh [of "map offer_id (offers s)"] by metis
  qed
  then show ?thesis
    by (simp add: details_of_def filter_empty_conv)
qed


text \<open>
  C10. A create request of a business caller whose \<open>details\<close> list is empty or missing
  succeeds on a store with referential integrity: the offer is persisted, no detail
  is added, the offer has no details, and its minimum price and minimum delivery time
  read as absent, also through the single-offer read.
\<close>

theorem C10_create_without_details:
  assumes "is_business_user u"
    and "cr_details req = None \<or> cr_details req = Some []"
    and "fk_integrity s"
  shows "\<exists>ofr s'.
     OfferListAPIView_post (Authenticated u) req now s = (Inr ofr, s') \<and>
     s' = \<lparr>offers = offers s @ [ofr], details = details s\<rparr> \<and>
     offer_user ofr = user_pk u \<and>
     details_of s' (offer_id ofr) = [] \<and>
     get_min_price s' ofr = None \<and>
     get_min_delivery_time s' ofr = None \<and>
     OfferDetailsAPIView_get (Authenticated u) (offer_id ofr) s' =
       Inr \<lparr>ov_offer = ofr, ov_details = [], ov_min_price = None,
            ov_min_delivery_time = None\<rparr>"
proof -
  obtain ofr rows where created: "perform_create u now (cr_attrs req) [] s =
       (Inr ofr, \<lparr>offers = offers s @ [ofr], details = details s @ rows\<rparr>)"
    and ofr: "ofr = \<lparr>offer_id = next_pk (map offer_id (offers s)), offer_user = user_pk u,
            offer_title = a_title (cr_attrs req), offer_description = a_description (cr_attrs req),
            offer_image = a_image (cr_attrs req), updated_at = now, created_at = now\<rparr>"
    and rows: "map (\<lambda>r. r\<lparr>od_id := 0\<rparr>) rows = map (new_OfferDetail 0 (offer_id ofr)) []"
    using perform_create_business [of u now "cr_attrs req" "[]" s] assms(1) by blast
  let ?s' = "\<lparr>offers = offers s @ [ofr], details = details s\<rparr>"
  have "rows = []"
    using rows by simp
  moreover have "OfferSerializer_validate (cr_details req) = Inr []"
    using assms(2) validate_missing validate_valid [of "[]"] by auto
  ultimately have post: "OfferListAPIView_post (Authenticated u) req now s = (Inr ofr, ?s')"
    using created by (simp add: post_authenticated)
  have key: "offer_id ofr = next_pk (map offer_id (offers s))"
    using ofr by simp
  have none: "details_of ?s' (offer_id ofr) = []"
    unfolding key using assms(3) by (rule details_of_new_offer)
  have minima: "get_min_price ?s' ofr = None" "get_min_delivery_time ?s' ofr = None"
    using none by (simp_all add: get_min_price_def get_min_delivery_time_def Min_agg_empty)
  have "\<forall>x \<in> set (offers s). \<not> offer_id x = offer_id ofr"
    using next_pk_fresh [of "map offer_id (offers s)"] key by (metis image_eqI set_map)
  then have "find (\<lambda>x. offer_id x = offer_id ofr) (offers s @ [ofr]) = Some ofr"
    by (rule find_append_fresh) simp
  then have found: "get_object_or_404 (offer_id ofr) ?s' = Inr ofr"
    by (simp add: get_object_or_404_def)
  have read: "OfferDetailsAPIView_get (Authenticated u) (offer_id ofr) ?s' =
       Inr \<lparr>ov_offer = ofr, ov_details = [], ov_min_price = None,
            ov_min_delivery_time = None\<rparr>"
    using found none minima
    by (simp add: OfferDetailsAPIView_get_def OfferDetailsAPIView_get_permissions_def
          check_permissions_def to_representation_def)
  have owner: "offer_user ofr = user_pk u"
    using ofr by simp
  from post owner none minima read show ?thesis
    by (intro exI [of _ ofr] exI [of _ ?s'] conjI) simp_all
qed


theorem C10_create_without_details_witness:
  "is_business_user example_owner \<and> fk_integrity example_db \<and>
   (\<exists>ofr s'.
      OfferListAPIView_post (Authenticated example_owner)
        \<lparr>cr_attrs = \<lparr>a_title = ''Icons'', a_description = ''Icon set'', a_image = None\<rparr>,
         cr_details = None\<rparr> 20 example_db = (Inr ofr, s') \<and>
      details s' = details example_db \<and>
      get_min_price s' ofr = None \<and> get_min_delivery_time s' ofr = None)"
proof -
  let ?req = "\<lparr>cr_attrs = \<lparr>a_title = ''Icons'', a_description = ''Icon set'', a_image = None\<rparr>,
         cr_details = None\<rparr>"
  have business: "is_business_user example_owner"
    by (simp add: is_business_user_def example_owner_def)
  have integrity: "fk_integrity example_db"
    by (simp add: fk_integrity_def example_db_def example_offer_def example_basic_def
          example_premium_def)
  have missing: "cr_details ?req = None \<or> cr_details ?req = Some []"
    by simp
  obtain ofr s' where post: "OfferListAPIView_post (Authenticated example_owner) ?req 20 example_db =
        (Inr ofr, s')"
    and s': "s' = \<lparr>offers = offers example_db @ [ofr], details = details example_db\<rparr>"
    and minima: "get_min_price s' ofr = None" "get_min_delivery_time s' ofr = None"
    using C10_create_without_details [OF business missing integrity, of 20] by blast
  have "details s' = details example_db"
    using s' by simp
  with post minima have "\<exists>ofr s'.
      OfferListAPIView_post (Authenticated example_owner) ?req 20 example_db = (Inr ofr, s') \<and>
      details s' = details example_db \<and>
      get_min_price s' ofr = None \<and> get_min_delivery_time s' ofr = None"
    by (intro exI [of _ ofr] exI [of _ s'] conjI)
  with business integrity show ?thesis
    by simp
qed

section \<open>Deleting: properties\<close>

lemma delete_allowed_iff:
  "has_permission_to_delete u ofr = Inr True \<longleftrightarrow>
     user_pk u = offer_user ofr \<or> (is_staff u \<and> profile u \<noteq> None)"
  by (cases "profile u") (simp_all add: has_permission_to_delete_def)

text \<open>
  C1. The claim asks that a staff caller without a business-typed profile, who is not the
  owner, be refused. The code deletes: the second operand of the inner \<open>or\<close> repeats
  \<open>is_staff\<close>, so the profile type never decides. Here the caller is staff with a
  customer profile and the offer belongs to another user; the offer and its two
  details are gone.
\<close>

theorem C1_staff_customer_deletes:
  "OfferDetailsAPIView_delete (Authenticated example_staff_customer) 1 example_db =
     (Inr (), \<lparr>offers = [], details = []\<rparr>)"
  by code_simp

section \<open>Price rounding: properties\<close>

text \<open>The one path that rounds: \<open>save\<close>, reached from \<open>_update_detail_instance\<close>.\<close>

lemma update_detail_instance_rounds:
  assumes "od_id r \<in> set (map od_id (details s))" and "dd_id d = None"
  shows "round_price (set_fields d r) \<in> set (details (update_detail_instance r d s))"
    and "od_price (round_price (set_fields d r)) = py_round2 (dd_price d)"
proof -
  let ?row = "round_price (set_fields d r)"
  have key: "od_id ?row = od_id r"
    using assms(2) by (simp add: round_price_def set_fields_def)
  obtain x where x: "x \<in> set (details s)" "od_id x = od_id r"
    using assms(1) by auto
  have written: "details (update_detail_instance r d s) =
      map (\<lambda>y. if od_id y = od_id r then ?row else y) (details s)"
    using assms(1) key
    by (simp add: update_detail_instance_def OfferDetail_save_def write_row_def)
  have "(if od_id x = od_id r then ?row else x) \<in>
      (\<lambda>y. if od_id y = od_id r then ?row else y) ` set (details s)"
    using x(1) by (rule imageI)
  then show "?row \<in> set (details (update_detail_instance r d s))"
    unfolding written set_map using x(2) by simp
  show "od_price ?row = py_round2 (dd_price d)"
    by (simp add: round_price_def set_fields_def)
qed

text \<open>
  C2. A price with three fractional digits is persisted as it is, on creation (through
  \<open>bulk_create\<close>) and on update (through \<open>QuerySet.update\<close>): neither path runs
  \<open>OfferDetail.save\<close>, the only place that rounds. The rounded price would be 11.
\<close>

theorem C2_price_persisted_unrounded:
  "map od_price (details (snd (OfferListAPIView_post (Authenticated example_owner)
      \<lparr>cr_attrs = \<lparr>a_title = ''Icons'', a_description = ''Icon set'', a_image = None\<rparr>,
       cr_details = Some [example_entry]\<rparr> 20 example_db))) = [50, 120, 10999 / 1000] \<and>
   map od_price (details (snd (OfferDetailsAPIView_update PATCH (Authenticated example_owner) 1
      \<lparr>p_title = None, p_description = None, p_image = None,
       p_details = Some [example_entry\<lparr>dd_id := Some 1\<rparr>]\<rparr> 20 example_db))) =
     [10999 / 1000, 120] \<and>
   py_round2 (10999 / 1000) = 11"
  by code_simp

section \<open>Updating: properties\<close>


lemma get_object_key: "get_object_or_404 key s = Inr ofr \<Longrightarrow> offer_id ofr = key"
  by (auto simp add: get_object_or_404_def find_Some_iff split: option.splits)

text \<open>One step of the loop of the view.\<close>

lemma view_step_offers:
  "offers (case dd_id d of None \<Rightarrow> s
      | Some i \<Rightarrow> if i = 0 then s else queryset_update i key d s) = offers s"
  by (simp add: queryset_update_def split: option.splits)



lemma view_update_loop_offers: "offers (view_update_loop instance ds s) = offers s"
  by (induction ds arbitrary: s) (simp_all add: view_step_offers)






lemma serializer_update_instance:
  "fst (AllOfferDetailsSerializer_update now instance prefetched (validated_patch p) s) =
     instance
       \<lparr>offer_title := (case p_title p of None \<Rightarrow> offer_title instance | Some t \<Rightarrow> t),
        offer_description :=
          (case p_description p of None \<Rightarrow> offer_description instance | Some t \<Rightarrow> t),
        offer_image := (case p_image p of None \<Rightarrow> offer_image instance | Some i \<Rightarrow> i),
        updated_at := now\<rparr>"
  by (simp add: AllOfferDetailsSerializer_update_def validated_patch_def Offer_save_def Let_def)

lemma update_validate_valid:
  assumes "\<forall>d \<in> set ds. is_valid d"
  shows "AllOfferDetailsSerializer_validate (Some ds) = Inr (map validated_data ds)"
proof -
  have "filter (\<lambda>d. \<not> is_valid d) ds = []" and "filter is_valid ds = ds"
    using assms by (simp_all add: filter_empty_conv filter_id_conv)
  then show ?thesis
    by (simp add: AllOfferDetailsSerializer_validate_def)
qed

lemma update_authorized_valid:
  assumes "get_object_or_404 key s = Inr instance"
    and "authorized m c instance"
    and "p_details p = Some ds"
    and "\<forall>d \<in> set ds. is_valid d"
  shows "OfferDetailsAPIView_update m c key p now s =
     (Inr (fst (AllOfferDetailsSerializer_update now instance (details_of s key)
                  (validated_patch p) (view_update_loop instance ds s))),
      snd (AllOfferDetailsSerializer_update now instance (details_of s key)
                  (validated_patch p) (view_update_loop instance ds s)))"
  using assms get_object_key [OF assms(1)]
  by (simp add: OfferDetailsAPIView_update_def authorized_def update_validate_valid Let_def
        split_beta)

lemma update_applies_scalars:
  assumes "get_object_or_404 key s = Inr instance"
    and "authorized m c instance"
    and "p_details p = Some ds"
    and "\<forall>d \<in> set ds. is_valid d"
  shows "fst (OfferDetailsAPIView_update m c key p now s) =
     Inr (instance
       \<lparr>offer_title := (case p_title p of None \<Rightarrow> offer_title instance | Some t \<Rightarrow> t),
        offer_description :=
          (case p_description p of None \<Rightarrow> offer_description instance | Some t \<Rightarrow> t),
        offer_image := (case p_image p of None \<Rightarrow> offer_image instance | Some i \<Rightarrow> i),
        updated_at := now\<rparr>)"
  by (simp only: update_authorized_valid [OF assms] fst_conv serializer_update_instance)

lemma update_without_details:
  assumes "get_object_or_404 key s = Inr instance"
    and "authorized m c instance"
    and "p_details p = None"
  shows "OfferDetailsAPIView_update m c key p now s = (Inl TypeError, s)"
  using assms
  by (simp add: OfferDetailsAPIView_update_def authorized_def
        AllOfferDetailsSerializer_validate_def Let_def)

text \<open>
  C7. An update by the owner whose patch has a title and no \<open>details\<close> key: the loop of
  the view iterates over the missing list and raises before \<open>serializer.save()\<close>; the
  title is not applied and the store is unchanged.
\<close>

theorem C7_update_without_details_raises:
  "OfferDetailsAPIView_update PATCH (Authenticated example_owner) 1
     \<lparr>p_title = Some ''New'', p_description = None, p_image = None, p_details = None\<rparr>
     20 example_db = (Inl TypeError, example_db)"
  by code_simp






end
